theory Spec2Isabelle
  imports Main
begin

section \<open>Python values, byte strings and text\<close>

text \<open>
  A byte string (Python 2 \<open>str\<close>, Python 3 \<open>bytes\<close>) is a list of 8-bit characters; a
  text string (Python 2 \<open>unicode\<close>, Python 3 \<open>str\<close>) is a list of code points, so that
  \<open>len\<close> counts code points and not encoded bytes.
\<close>

type_synonym bytes = string
type_synonym unicode = "nat list"

definition text_of :: "string \<Rightarrow> unicode" where
  "text_of s = map of_char s"

text \<open>
  The exceptions the modelled code can meet. All of them derive from \<open>Exception\<close>, so
  an \<open>except Exception\<close> clause catches each one.
\<close>

datatype exn =
    ValueError | TypeError | AttributeError | KeyError
  | UnicodeDecodeError | UnicodeEncodeError | Violation | InvalidRemoteInterface

text \<open>Sequencing: an exception of the first step is the exception of the whole.\<close>

definition and_then :: "exn + 'a \<Rightarrow> ('a \<Rightarrow> exn + 'b) \<Rightarrow> exn + 'b" where
  "and_then r f = (case r of Inl e \<Rightarrow> Inl e | Inr x \<Rightarrow> f x)"

text \<open>
  The values a candidate object can be: what \<open>json.loads\<close> produces, plus byte strings.
  A dictionary is the list of its items; \<open>json.loads\<close> never produces one with a repeated
  key, and every key it produces is text. A float is kept as a mantissa and an exponent;
  nothing here reads it.
\<close>

datatype pyval =
    PyNone
  | PyBool bool
  | PyInt int
  | PyFloat int int
  | PyText unicode
  | PyBytes bytes
  | PyList "pyval list"
  | PyDict "(pyval \<times> pyval) list"

text \<open>\<open>prn.encode("ascii")\<close>: fails on any code point outside ASCII.\<close>

definition encode_ascii :: "unicode \<Rightarrow> exn + bytes" where
  "encode_ascii s =
     (if list_all (\<lambda>c. c < 128) s then Inr (map char_of s) else Inl UnicodeEncodeError)"

text \<open>
  \<open>segment.decode("utf-8")\<close> with the default strict error handling. A continuation
  byte is \<open>10xxxxxx\<close>; overlong forms and code points beyond \<open>U+10FFFF\<close> are refused.
  (Python 2 lets an encoded surrogate through, so no range of three-byte forms is
  excluded here.)
\<close>

definition continuation :: "nat \<Rightarrow> bool" where
  "continuation b = (128 \<le> b \<and> b < 192)"

fun utf8_decode :: "nat list \<Rightarrow> exn + unicode" where
  "utf8_decode [] = Inr []"
| "utf8_decode (b0 # bs) =
     (if b0 < 128 then
        (case utf8_decode bs of Inl e \<Rightarrow> Inl e | Inr cs \<Rightarrow> Inr (b0 # cs))
      else if 194 \<le> b0 \<and> b0 < 224 then
        (case bs of
           b1 # r \<Rightarrow>
             if continuation b1 then
               (case utf8_decode r of Inl e \<Rightarrow> Inl e
                | Inr cs \<Rightarrow> Inr (((b0 - 192) * 64 + (b1 - 128)) # cs))
             else Inl UnicodeDecodeError
         | _ \<Rightarrow> Inl UnicodeDecodeError)
      else if 224 \<le> b0 \<and> b0 < 240 then
        (case bs of
           b1 # b2 # r \<Rightarrow>
             if continuation b1 \<and> continuation b2 \<and> (if b0 = 224 then 160 \<le> b1 else True) then
               (case utf8_decode r of Inl e \<Rightarrow> Inl e
                | Inr cs \<Rightarrow>
                    Inr (((b0 - 224) * 4096 + (b1 - 128) * 64 + (b2 - 128)) # cs))
             else Inl UnicodeDecodeError
         | _ \<Rightarrow> Inl UnicodeDecodeError)
      else if 240 \<le> b0 \<and> b0 < 245 then
        (case bs of
           b1 # b2 # b3 # r \<Rightarrow>
             if continuation b1 \<and> continuation b2 \<and> continuation b3
                \<and> (if b0 = 240 then 144 \<le> b1 else True)
                \<and> (if b0 = 244 then b1 < 144 else True) then
               (case utf8_decode r of Inl e \<Rightarrow> Inl e
                | Inr cs \<Rightarrow>
                    Inr (((b0 - 240) * 262144 + (b1 - 128) * 4096
                          + (b2 - 128) * 64 + (b3 - 128)) # cs))
             else Inl UnicodeDecodeError
         | _ \<Rightarrow> Inl UnicodeDecodeError)
      else Inl UnicodeDecodeError)"

definition decode_utf8 :: "bytes \<Rightarrow> exn + unicode" where
  "decode_utf8 bs = utf8_decode (map of_char bs)"

section \<open>The voucher web resource (\<open>_secureaccesstokenauthorizer/resource.py\<close>)\<close>

text \<open>
  \<open>urlsafe_b64decode\<close> comes from the package's \<open>_base64\<close> module and is a parameter
  here: a function from the encoded bytes to the decoded bytes, or to the exception it
  raises.

  \<open>is_syntactic_prn\<close> has three exits that return \<open>False\<close> and one that returns \<open>True\<close>.
  The \<open>try\<close> block holds both \<open>prn.encode("ascii")\<close> and the decoder call, and
  \<open>except Exception\<close> turns either failure into \<open>False\<close>. The result is a sum so that
  "does not raise" is something the model can say.
\<close>

definition is_syntactic_prn :: "(bytes \<Rightarrow> exn + bytes) \<Rightarrow> pyval \<Rightarrow> exn + bool" where
  "is_syntactic_prn urlsafe_b64decode prn =
     (case prn of
        PyText s \<Rightarrow>
          if length s \<noteq> 44 then Inr False
          else
            (case (case encode_ascii s of
                     Inl e \<Rightarrow> Inl e
                   | Inr b \<Rightarrow> urlsafe_b64decode b) of
               Inl e \<Rightarrow> Inr False
             | Inr decoded \<Rightarrow> Inr True)
      | _ \<Rightarrow> Inr False)"

text \<open>
  What a handler hands back to the web server. Returning bytes leaves the response code
  at its default, 200; \<open>ErrorPage(code, brief, detail).render(request)\<close> sets the code and
  returns the library's page for \<open>brief\<close> and \<open>detail\<close>.
\<close>

datatype response = Body bytes | ErrorPageRendered nat bytes bytes

fun status :: "response \<Rightarrow> nat" where
  "status (Body b) = 200"
| "status (ErrorPageRendered c brief detail) = c"

text \<open>
  The resources \<open>getChild\<close> can answer with. \<open>NoResource\<close> is the library's page for
  404; \<open>PaymentReferenceView\<close> wraps the stored payment reference.
\<close>

datatype 'r resource = ErrorPage nat bytes bytes | NoResource | PaymentReferenceView 'r

definition BAD_REQUEST :: nat where
  "BAD_REQUEST = 400"

definition NOT_FOUND :: nat where
  "NOT_FOUND = 404"

definition bad_request :: "'r resource" where
  "bad_request = ErrorPage BAD_REQUEST ''Bad Request'' ''Bad Request''"

fun render :: "'r resource \<Rightarrow> ('r \<Rightarrow> bytes) \<Rightarrow> response" where
  "render (ErrorPage c brief detail) to_json = ErrorPageRendered c brief detail"
| "render NoResource to_json =
     ErrorPageRendered NOT_FOUND ''No Such Resource'' ''Sorry. No luck finding that resource.''"
| "render (PaymentReferenceView reference) to_json = Body (to_json reference)"

text \<open>\<open>payload.keys()\<close> and \<open>payload[key]\<close>: only a dictionary has them.\<close>

definition keys :: "pyval \<Rightarrow> exn + pyval list" where
  "keys payload =
     (case payload of PyDict items \<Rightarrow> Inr (map fst items) | _ \<Rightarrow> Inl AttributeError)"

definition getitem :: "pyval \<Rightarrow> pyval \<Rightarrow> exn + pyval" where
  "getitem payload k =
     (case payload of
        PyDict items \<Rightarrow>
          (case map_of items k of None \<Rightarrow> Inl KeyError | Some v \<Rightarrow> Inr v)
      | _ \<Rightarrow> Inl TypeError)"

text \<open>
  The redemption controller is another module of the package. Here it is the record of
  the calls made to it: \<open>redeem\<close> appends its argument.
\<close>

type_synonym controller = "pyval list"

definition redeem :: "pyval \<Rightarrow> controller \<Rightarrow> controller" where
  "redeem prn calls = calls @ [prn]"

text \<open>
  \<open>_VoucherCollection.render_PUT\<close>. \<open>loads\<close> is \<open>json.loads\<close>, a parameter: the parsed
  value, or the exception. Only the call to \<open>loads\<close> is inside the \<open>try\<close>; an exception
  from \<open>payload.keys()\<close> or \<open>payload[u"voucher"]\<close> leaves the method.
\<close>

definition render_PUT ::
  "(bytes \<Rightarrow> exn + pyval) \<Rightarrow> (bytes \<Rightarrow> exn + bytes) \<Rightarrow> controller \<Rightarrow> bytes
     \<Rightarrow> exn + (response \<times> controller)" where
  "render_PUT loads urlsafe_b64decode controller content =
     (case loads content of
        Inl e \<Rightarrow> Inr (render (bad_request :: unit resource) (\<lambda>r. []), controller)
      | Inr payload \<Rightarrow>
          (case keys payload of
             Inl e \<Rightarrow> Inl e
           | Inr ks \<Rightarrow>
               if ks \<noteq> [PyText (text_of ''voucher'')] then
                 Inr (render (bad_request :: unit resource) (\<lambda>r. []), controller)
               else
                 (case getitem payload (PyText (text_of ''voucher'')) of
                    Inl e \<Rightarrow> Inl e
                  | Inr prn \<Rightarrow>
                      (case is_syntactic_prn urlsafe_b64decode prn of
                         Inl e \<Rightarrow> Inl e
                       | Inr ok \<Rightarrow>
                           if \<not> ok then
                             Inr (render (bad_request :: unit resource) (\<lambda>r. []), controller)
                           else Inr (Body [], redeem prn controller)))))"

text \<open>
  Modelled from the spec: the payment reference store's \<open>get\<close> (module \<open>model\<close>, not
  among the sources). "\<open>get\<close> on an unknown voucher fails with a not-found condition":
  the store is a finite map from voucher to payment reference and an unknown voucher
  raises \<open>KeyError\<close>, the exception \<open>getChild\<close> catches.
\<close>

definition store_get :: "(unicode \<rightharpoonup> 'r) \<Rightarrow> unicode \<Rightarrow> exn + 'r" where
  "store_get store prn = (case store prn of None \<Rightarrow> Inl KeyError | Some r \<Rightarrow> Inr r)"

text \<open>
  \<open>_VoucherCollection.getChild\<close>. The decoding of the segment is the first statement
  and is outside the \<open>try\<close>, which only covers \<open>self._store.get(prn)\<close> and only catches
  \<open>KeyError\<close>.
\<close>

definition getChild ::
  "(bytes \<Rightarrow> exn + bytes) \<Rightarrow> (unicode \<rightharpoonup> 'r) \<Rightarrow> bytes \<Rightarrow> exn + 'r resource" where
  "getChild urlsafe_b64decode store segment =
     (case decode_utf8 segment of
        Inl e \<Rightarrow> Inl e
      | Inr prn \<Rightarrow>
          (case is_syntactic_prn urlsafe_b64decode (PyText prn) of
             Inl e \<Rightarrow> Inl e
           | Inr ok \<Rightarrow>
               if \<not> ok then Inr bad_request
               else
                 (case store_get store prn of
                    Inl KeyError \<Rightarrow> Inr NoResource
                  | Inl e \<Rightarrow> Inl e
                  | Inr payment_reference \<Rightarrow> Inr (PaymentReferenceView payment_reference))))"

section \<open>The Foolscap protocol definitions (\<open>_zkapauthorizer/foolscap.py\<close>)\<close>

text \<open>
  \<open>ShareStat\<close>: an \<open>attrs\<close> class whose two attributes, \<open>size\<close> (the size in bytes of
  the share, \<open>size_bytes\<close> here) and \<open>lease_expiration\<close>, default to 0. The constructor takes
  each attribute or falls back on its default.
\<close>

record ShareStat =
  size_bytes :: int
  lease_expiration :: int

definition ShareStat_init :: "int option \<Rightarrow> int option \<Rightarrow> ShareStat" where
  "ShareStat_init size_arg lease_expiration_arg =
     \<lparr> size_bytes = (case size_arg of None \<Rightarrow> 0 | Some n \<Rightarrow> n),
       lease_expiration = (case lease_expiration_arg of None \<Rightarrow> 0 | Some t \<Rightarrow> t) \<rparr>"

text \<open>
  The Foolscap constraints this module builds or passes around. \<open>External\<close> stands for a
  constraint defined elsewhere and used by name here (\<open>StorageIndex\<close>, \<open>Offset\<close>, \<open>int\<close>).
  \<open>ByteStringConstraint\<close> and \<open>ListOf\<close> carry \<open>maxLength\<close> (\<open>None\<close> for no limit) and
  \<open>minLength\<close>.
\<close>

datatype constraint =
    Any
  | External string
  | ByteStringConstraint "nat option" nat
  | ListOf constraint "nat option" nat
  | DictOf constraint constraint
  | Optional constraint pyval

definition too_long :: "nat option \<Rightarrow> nat \<Rightarrow> bool" where
  "too_long maxLength n = (case maxLength of None \<Rightarrow> False | Some m \<Rightarrow> m < n)"

text \<open>
  \<open>checkObject\<close>: what a constraint does with an object, \<open>Violation\<close> being the exception
  Foolscap raises on a refusal. \<open>external\<close> says which objects a constraint used by name
  lets through. \<open>Optional\<close> has no check of its own and lets every object through; the
  schema looks inside it when it checks an argument (\<open>getKeywordArgConstraint\<close> below).
\<close>

fun checkObject :: "(string \<Rightarrow> pyval \<Rightarrow> bool) \<Rightarrow> constraint \<Rightarrow> pyval \<Rightarrow> exn + unit" where
  "checkObject external Any obj = Inr ()"
| "checkObject external (External name) obj =
     (if external name obj then Inr () else Inl Violation)"
| "checkObject external (ByteStringConstraint maxLength minLength) obj =
     (case obj of
        PyBytes b \<Rightarrow>
          if too_long maxLength (length b) then Inl Violation
          else if length b < minLength then Inl Violation
          else Inr ()
      | _ \<Rightarrow> Inl Violation)"
| "checkObject external (ListOf c maxLength minLength) obj =
     (case obj of
        PyList xs \<Rightarrow>
          if too_long maxLength (length xs) then Inl Violation
          else if length xs < minLength then Inl Violation
          else if list_all (\<lambda>x. checkObject external c x = Inr ()) xs then Inr ()
          else Inl Violation
      | _ \<Rightarrow> Inl Violation)"
| "checkObject external (DictOf kc vc) obj =
     (case obj of
        PyDict items \<Rightarrow>
          if list_all (\<lambda>(k, v). checkObject external kc k = Inr ()
                              \<and> checkObject external vc v = Inr ()) items
          then Inr () else Inl Violation
      | _ \<Rightarrow> Inl Violation)"
| "checkObject external (Optional c dflt) obj = Inr ()"

definition MAXIMUM_PASSES_PER_CALL :: nat where
  "MAXIMUM_PASSES_PER_CALL = 2 ^ 20"

definition PASS_LENGTH :: nat where
  "PASS_LENGTH = 177"

definition Pass :: constraint where
  "Pass = ByteStringConstraint (Some PASS_LENGTH) PASS_LENGTH"

definition PassList :: constraint where
  "PassList = ListOf Pass (Some MAXIMUM_PASSES_PER_CALL) 0"

text \<open>
  What the specification says of a \<open>passes\<close> value: a list of at most \<open>2 ^ 20\<close> elements,
  each a byte string of length exactly 177.
\<close>

abbreviation well_formed_passes :: "pyval \<Rightarrow> bool" where
  "well_formed_passes obj \<equiv>
     \<exists>passes. obj = PyList passes \<and> length passes \<le> 2 ^ 20
        \<and> (\<forall>p \<in> set passes. \<exists>b. p = PyBytes b \<and> length b = 177)"

text \<open>
  A dictionary with string keys, in insertion order: \<open>d[k] = v\<close> replaces the value of a
  key that is there and appends a new key; \<open>d.update(pairs)\<close> does so for each pair in
  turn.
\<close>

fun dict_set :: "('k \<times> 'v) list \<Rightarrow> 'k \<Rightarrow> 'v \<Rightarrow> ('k \<times> 'v) list" where
  "dict_set [] k v = [(k, v)]"
| "dict_set ((k', v') # d) k v = (if k' = k then (k, v) # d else (k', v') # dict_set d k v)"

fun dict_update :: "('k \<times> 'v) list \<Rightarrow> ('k \<times> 'v) list \<Rightarrow> ('k \<times> 'v) list" where
  "dict_update d [] = d"
| "dict_update d ((k, v) # kvs) = dict_update (dict_set d k v) kvs"

text \<open>
  \<open>RemoteMethodSchema\<close>: the argument names in positional order, the constraint of each
  argument, the names of the required arguments, the constraint on the response, and the
  two options on unknown arguments (unset by default).
\<close>

record RemoteMethodSchema =
  argumentNames :: "string list"
  argConstraints :: "(string \<times> constraint) list"
  required :: "string list"
  responseConstraint :: "constraint option"
  ignoreUnknown :: "constraint option"
  acceptUnknown :: "constraint option"

fun is_Optional :: "constraint \<Rightarrow> bool" where
  "is_Optional (Optional c dflt) = True"
| "is_Optional c = False"

text \<open>
  What both ways of constructing a schema do with the arguments they end up with: the
  names in order, each constraint kept, an argument required unless its constraint is an
  \<open>Optional\<close>.
\<close>

definition schema_of_arguments ::
  "(string \<times> constraint) list \<Rightarrow> constraint option \<Rightarrow> constraint option \<Rightarrow> constraint option
     \<Rightarrow> RemoteMethodSchema" where
  "schema_of_arguments arguments response ignore accept =
     \<lparr> argumentNames = map fst arguments,
       argConstraints = arguments,
       required = map fst (filter (\<lambda>(argname, c). \<not> is_Optional c) arguments),
       responseConstraint = response,
       ignoreUnknown = ignore,
       acceptUnknown = accept \<rparr>"

text \<open>
  \<open>RemoteMethodSchema(method=prototype)\<close>, the way a method declared with \<open>def\<close> in a
  \<open>RemoteInterface\<close> becomes a schema: the prototype is its arguments with their defaults
  and the constraint it returns. A first argument called \<open>self\<close> is refused.
\<close>

definition initFromMethod ::
  "(string \<times> constraint) list \<Rightarrow> constraint \<Rightarrow> exn + RemoteMethodSchema" where
  "initFromMethod arguments response =
     (case arguments of
        (argname, c) # others \<Rightarrow>
          if argname = ''self'' then Inl InvalidRemoteInterface
          else Inr (schema_of_arguments arguments (Some response) None None)
      | [] \<Rightarrow> Inr (schema_of_arguments arguments (Some response) None None))"

text \<open>
  \<open>RemoteMethodSchema(**kwargs)\<close>. The constructor's signature is
  \<open>__init__(self, method=None, _response=None, __options=[], **kwargs)\<close>, so a keyword that
  has the name of one of its parameters is taken by that parameter and is no argument of
  the schema: \<open>self\<close> is a second value for \<open>self\<close> and the call raises \<open>TypeError\<close>;
  \<open>method\<close> sends the constructor to the prototype path, which raises \<open>TypeError\<close> on
  a constraint; \<open>_response\<close> becomes the response constraint; the third parameter, whose
  name inside the class is \<open>_RemoteMethodSchema__options\<close>, is not used. The body then
  takes \<open>__ignoreUnknown__\<close> and \<open>__acceptUnknown__\<close> out of \<open>kwargs\<close> as the two options,
  and what is left are the arguments.
\<close>

definition constructor_options :: "string list" where
  "constructor_options =
     [''_response'', ''_RemoteMethodSchema__options'', ''__ignoreUnknown__'',
      ''__acceptUnknown__'']"

definition RemoteMethodSchema_init ::
  "(string \<times> constraint) list \<Rightarrow> exn + RemoteMethodSchema" where
  "RemoteMethodSchema_init kwargs =
     (if ''self'' \<in> set (map fst kwargs) then Inl TypeError
      else if ''method'' \<in> set (map fst kwargs) then Inl TypeError
      else
        Inr (schema_of_arguments
               (filter (\<lambda>(argname, c). argname \<notin> set constructor_options) kwargs)
               (map_of kwargs ''_response'')
               (map_of kwargs ''__ignoreUnknown__'')
               (map_of kwargs ''__acceptUnknown__'')))"

definition add_arguments ::
  "RemoteMethodSchema \<Rightarrow> (string \<times> constraint) list \<Rightarrow> exn + RemoteMethodSchema" where
  "add_arguments schema kwargs =
     (let new_kwargs = dict_update (argConstraints schema) kwargs
      in and_then (RemoteMethodSchema_init new_kwargs) (\<lambda>modified_schema.
           Inr (modified_schema
                  \<lparr> argumentNames := map fst kwargs @ argumentNames schema \<rparr>)))"

definition add_passes :: "RemoteMethodSchema \<Rightarrow> exn + RemoteMethodSchema" where
  "add_passes schema = add_arguments schema [(''passes'', PassList)]"

text \<open>
  \<open>RIStorageServer\<close> is Tahoe-LAFS's interface and a parameter here: a finite map from
  method name to schema. \<open>RIStorageServer["name"]\<close> raises \<open>KeyError\<close> for a name the
  interface does not have.
\<close>

definition remote_method ::
  "(string \<rightharpoonup> RemoteMethodSchema) \<Rightarrow> string \<Rightarrow> exn + RemoteMethodSchema" where
  "remote_method iface name = (case iface name of None \<Rightarrow> Inl KeyError | Some s \<Rightarrow> Inr s)"

text \<open>The two methods the class body declares with \<open>def\<close>: their prototypes.\<close>

definition share_sizes_arguments :: "(string \<times> constraint) list" where
  "share_sizes_arguments =
     [(''storage_index_or_slot'', External ''StorageIndex''), (''sharenums'', Any)]"

definition share_sizes_response :: constraint where
  "share_sizes_response = DictOf (External ''int'') (External ''Offset'')"

definition stat_shares_arguments :: "(string \<times> constraint) list" where
  "stat_shares_arguments =
     [(''storage_indexes_or_slots'', ListOf (External ''StorageIndex'') None 0)]"

definition stat_shares_response :: constraint where
  "stat_shares_response = ListOf (DictOf (External ''int'') Any) None 0"

text \<open>
  The class body of \<open>RIPrivacyPassAuthorizedStorageServer\<close>, statement by statement, and
  then the two prototypes turned into schemas when the class is made: the result is the
  list of its methods in the order of definition, or the first exception.
\<close>

definition RIPrivacyPassAuthorizedStorageServer ::
  "(string \<rightharpoonup> RemoteMethodSchema) \<Rightarrow> exn + (string \<times> RemoteMethodSchema) list" where
  "RIPrivacyPassAuthorizedStorageServer RIStorageServer =
     and_then (remote_method RIStorageServer ''get_version'') (\<lambda>get_version.
     and_then (and_then (remote_method RIStorageServer ''allocate_buckets'') add_passes)
       (\<lambda>allocate_buckets.
     and_then (and_then (remote_method RIStorageServer ''add_lease'') add_passes)
       (\<lambda>add_lease.
     and_then (remote_method RIStorageServer ''get_buckets'') (\<lambda>get_buckets.
     and_then (remote_method RIStorageServer ''slot_readv'') (\<lambda>slot_readv.
     and_then
       (and_then (remote_method RIStorageServer ''slot_testv_and_readv_and_writev'')
          add_passes)
       (\<lambda>slot_testv_and_readv_and_writev.
     and_then (remote_method RIStorageServer ''advise_corrupt_share'') (\<lambda>advise_corrupt_share.
     and_then (initFromMethod share_sizes_arguments share_sizes_response) (\<lambda>share_sizes.
     and_then (initFromMethod stat_shares_arguments stat_shares_response) (\<lambda>stat_shares.
       Inr [ (''get_version'', get_version),
             (''allocate_buckets'', allocate_buckets),
             (''add_lease'', add_lease),
             (''get_buckets'', get_buckets),
             (''share_sizes'', share_sizes),
             (''stat_shares'', stat_shares),
             (''slot_readv'', slot_readv),
             (''slot_testv_and_readv_and_writev'', slot_testv_and_readv_and_writev),
             (''advise_corrupt_share'', advise_corrupt_share) ])))))))))"

text \<open>
  A stand-in for Tahoe-LAFS's \<open>RIStorageServer\<close>, used to evaluate the class body: the
  seven methods, their argument names, and their constraints by name.
\<close>

definition RIStorageServer_example :: "(string \<times> RemoteMethodSchema) list" where
  "RIStorageServer_example =
     [ (''get_version'', schema_of_arguments [] (Some Any) None None),
       (''allocate_buckets'',
          schema_of_arguments
            [(''storage_index'', External ''StorageIndex''),
             (''renew_secret'', External ''LeaseRenewSecret''),
             (''cancel_secret'', External ''LeaseCancelSecret''),
             (''sharenums'', External ''SetOf(int)''),
             (''allocated_size'', External ''Offset''),
             (''canary'', External ''Referenceable'')]
            (Some Any) None None),
       (''add_lease'',
          schema_of_arguments
            [(''storage_index'', External ''StorageIndex''),
             (''renew_secret'', External ''LeaseRenewSecret''),
             (''cancel_secret'', External ''LeaseCancelSecret'')]
            (Some Any) None None),
       (''get_buckets'',
          schema_of_arguments [(''storage_index'', External ''StorageIndex'')]
            (Some Any) None None),
       (''slot_readv'',
          schema_of_arguments
            [(''storage_index'', External ''StorageIndex''),
             (''shares'', ListOf (External ''int'') None 0),
             (''readv'', External ''ReadVector'')]
            (Some Any) None None),
       (''slot_testv_and_readv_and_writev'',
          schema_of_arguments
            [(''storage_index'', External ''StorageIndex''),
             (''secrets'', External ''Secrets''),
             (''tw_vectors'', External ''TestAndWriteVectorsForShares''),
             (''r_vector'', External ''ReadVector'')]
            (Some Any) None None),
       (''advise_corrupt_share'',
          schema_of_arguments
            [(''share_type'', External ''ShareType''),
             (''storage_index'', External ''StorageIndex''),
             (''shnum'', External ''int''),
             (''reason'', External ''Reason'')]
            (Some Any) None None) ]"

section \<open>Foolscap's check of an inbound call\<close>

text \<open>
  What Foolscap does with a call that has arrived, before the method of the server object
  runs (\<open>Broker._doCall\<close> and \<open>RemoteMethodSchema.checkAllArgs\<close>). The positional arguments
  are given the first argument names, the keyword arguments are added (a name given twice
  is a \<open>Violation\<close>), each argument is checked against its constraint in that order, and
  then the required arguments are looked for. Only then is the method called.
\<close>

fun add_keywords ::
  "(string \<times> pyval) list \<Rightarrow> (string \<times> pyval) list \<Rightarrow> exn + (string \<times> pyval) list" where
  "add_keywords allargs [] = Inr allargs"
| "add_keywords allargs ((argname, argvalue) # kwargs) =
     (if argname \<in> set (map fst allargs) then Inl Violation
      else add_keywords (dict_set allargs argname argvalue) kwargs)"

definition bind_arguments ::
  "RemoteMethodSchema \<Rightarrow> pyval list \<Rightarrow> (string \<times> pyval) list
     \<Rightarrow> exn + (string \<times> pyval) list" where
  "bind_arguments schema args kwargs =
     (if length (argumentNames schema) < length args then Inl Violation
      else add_keywords (dict_update [] (zip (argumentNames schema) args)) kwargs)"

text \<open>
  \<open>getKeywordArgConstraint\<close>: the constraint to check an argument against, the inside of
  an \<open>Optional\<close> for an optional argument. For a name the schema does not know, the two
  options decide; with neither set it is a \<open>Violation\<close>, with one set there is no
  constraint to check against.
\<close>

definition getKeywordArgConstraint ::
  "RemoteMethodSchema \<Rightarrow> string \<Rightarrow> exn + (bool \<times> constraint option)" where
  "getKeywordArgConstraint schema argname =
     (case map_of (argConstraints schema) argname of
        Some c \<Rightarrow> Inr (True, Some (case c of Optional inner dflt \<Rightarrow> inner | _ \<Rightarrow> c))
      | None \<Rightarrow>
          if ignoreUnknown schema \<noteq> None then Inr (False, None)
          else if acceptUnknown schema \<noteq> None then Inr (True, None)
          else Inl Violation)"

fun check_arguments ::
  "(string \<Rightarrow> pyval \<Rightarrow> bool) \<Rightarrow> RemoteMethodSchema \<Rightarrow> (string \<times> pyval) list \<Rightarrow> exn + unit" where
  "check_arguments external schema [] = Inr ()"
| "check_arguments external schema ((argname, argvalue) # allargs) =
     and_then (getKeywordArgConstraint schema argname) (\<lambda>(accept, found).
       case found of
         None \<Rightarrow> Inl AttributeError
       | Some c \<Rightarrow>
           and_then (checkObject external c argvalue) (\<lambda>checked.
             check_arguments external schema allargs))"

definition checkAllArgs ::
  "(string \<Rightarrow> pyval \<Rightarrow> bool) \<Rightarrow> RemoteMethodSchema \<Rightarrow> pyval list \<Rightarrow> (string \<times> pyval) list
     \<Rightarrow> exn + unit" where
  "checkAllArgs external schema args kwargs =
     and_then (bind_arguments schema args kwargs) (\<lambda>allargs.
     and_then (check_arguments external schema allargs) (\<lambda>checked.
       if list_all (\<lambda>argname. argname \<in> set (map fst allargs)) (required schema)
       then Inr () else Inl Violation))"

text \<open>
  \<open>_doCall\<close>: the method of the server object is a function of the arguments and of the
  server's state; it runs only after \<open>checkAllArgs\<close> has returned.
\<close>

definition doCall ::
  "(string \<Rightarrow> pyval \<Rightarrow> bool) \<Rightarrow> RemoteMethodSchema
     \<Rightarrow> (pyval list \<Rightarrow> (string \<times> pyval) list \<Rightarrow> 's \<Rightarrow> (exn + pyval) \<times> 's)
     \<Rightarrow> pyval list \<Rightarrow> (string \<times> pyval) list \<Rightarrow> 's \<Rightarrow> (exn + pyval) \<times> 's" where
  "doCall external schema operation args kwargs state =
     (case checkAllArgs external schema args kwargs of
        Inl e \<Rightarrow> (Inl e, state)
      | Inr checked \<Rightarrow> operation args kwargs state)"

section \<open>The server's share queries\<close>

text \<open>
  Modelled from the spec: the server's batch share-size/stat query (module
  \<open>_storage_server\<close>, not among the sources; the interface above only declares
  \<open>share_sizes\<close> and \<open>stat_shares\<close>). "A batch stat/size query over multiple storage
  indices returns, per index, a mapping of share-number to stat (size, lease expiration)
  with 0-size for absent shares: absence is not an error", and the declaration's own
  words, "If a share has no stored state, its size is reported as 0". The server's state
  gives, for a storage index, the shares it holds with their stats. \<open>sharenums\<close> is the
  requested share numbers, or \<open>None\<close> for every share held. A requested share with no
  stored state is reported with the stat of \<open>ShareStat()\<close>.
\<close>

type_synonym storage_index = bytes
type_synonym shares = "storage_index \<Rightarrow> (nat \<times> ShareStat) list"

definition share_stats ::
  "shares \<Rightarrow> storage_index list \<Rightarrow> nat list option \<Rightarrow> (nat \<times> ShareStat) list list" where
  "share_stats held storage_indexes_or_slots sharenums =
     map (\<lambda>storage_index.
            case sharenums of
              None \<Rightarrow> held storage_index
            | Some requested \<Rightarrow>
                map (\<lambda>sharenum.
                       (sharenum,
                        case map_of (held storage_index) sharenum of
                          None \<Rightarrow> ShareStat_init None None
                        | Some stat \<Rightarrow> stat))
                    requested)
         storage_indexes_or_slots"

text \<open>
  The two declared methods as views of the query: \<open>share_sizes\<close> is the sizes for one
  storage index, \<open>stat_shares\<close> the stats of the shares held for each storage index.
\<close>

definition share_sizes :: "shares \<Rightarrow> storage_index \<Rightarrow> nat list option \<Rightarrow> (nat \<times> int) list" where
  "share_sizes held storage_index_or_slot sharenums =
     map (\<lambda>(sharenum, stat). (sharenum, size_bytes stat))
       (concat (share_stats held [storage_index_or_slot] sharenums))"

definition stat_shares :: "shares \<Rightarrow> storage_index list \<Rightarrow> (nat \<times> ShareStat) list list" where
  "stat_shares held storage_indexes_or_slots = share_stats held storage_indexes_or_slots None"

section \<open>The price calculator\<close>

text \<open>
  Modelled from the spec: \<open>PriceCalculator.calculate\<close> (module \<open>pricecalculator\<close>, not among
  the sources). "For each size, the number of passes charged is
  \<open>ceil(size_per_share / pass_value)\<close>, where \<open>size_per_share\<close> is derived from the object
  size and the erasure-coding parameters \<open>(shares_needed, shares_total)\<close>: storage cost for
  k-of-n encoding scales the raw size down by \<open>shares_needed/shares_total\<close> before charging.
  Total price is the sum over all sizes; an empty size list costs 0. Negative sizes are a
  contract violation (reject, do not silently clamp)."

  The quotient \<open>(size * shares_needed / shares_total) / pass_value\<close> is rounded up once, in
  exact arithmetic. The three parameters are positive configuration values.
\<close>

record PriceCalculator =
  shares_needed :: nat
  shares_total :: nat
  pass_value :: nat

definition div_ceil :: "int \<Rightarrow> int \<Rightarrow> int" where
  "div_ceil n d = - ((- n) div d)"

definition passes_charged :: "PriceCalculator \<Rightarrow> int \<Rightarrow> int" where
  "passes_charged pc sz =
     div_ceil (sz * int (shares_needed pc)) (int (shares_total pc) * int (pass_value pc))"

definition calculate :: "PriceCalculator \<Rightarrow> int list \<Rightarrow> exn + int" where
  "calculate pc sizes =
     (if list_ex (\<lambda>sz. sz < 0) sizes then Inl ValueError
      else Inr (sum_list (map (passes_charged pc) sizes)))"

text \<open>
  The right-hand side of the additivity property, \<open>sum(calculate([s]) for s in S)\<close>: each
  size is priced by a call of its own, and a call that fails makes the sum fail.
\<close>

fun sum_of_single_prices :: "PriceCalculator \<Rightarrow> int list \<Rightarrow> exn + int" where
  "sum_of_single_prices pc [] = Inr 0"
| "sum_of_single_prices pc (s # S) =
     and_then (calculate pc [s]) (\<lambda>price.
     and_then (sum_of_single_prices pc S) (\<lambda>rest. Inr (price + rest)))"

section \<open>Recovery\<close>

text \<open>
  Modelled from the spec: the recovery session (modules \<open>recover\<close> and \<open>resource\<close> of
  \<open>_zkapauthorizer\<close>, not among the sources; only their tests are). Protocol states:
  "\<open>started \<rightarrow> {downloading, importing}* \<rightarrow> succeeded | import_failed\<close>". "On session start,
  if the local database already contains any voucher or token state, immediately emit
  \<open>import_failed{reason="there is existing local state"}\<close> and terminate. Otherwise, fetch
  the snapshot via the supplied read capability; download failures emit
  \<open>import_failed{reason=<details>}\<close> and terminate. On successful download, replay snapshot
  statements into the local database, then apply any trailing event-streams in order, then
  emit \<open>succeeded\<close>."

  The local database is its vouchers and its tokens, a statement adds one or the other,
  and the download is given by its outcome: the stages it reported on the way, and the
  failure details or the snapshot with its event streams. A downloader that cannot even
  be had is a failure before anything started, the one the tests' broken downloader
  shows: \<open>import_failed\<close> is then the only message.
\<close>

datatype stage = started | downloading | importing | succeeded | import_failed

record stage_message =
  stage :: stage
  failure_reason :: "string option"

record database =
  vouchers :: "string list"
  tokens :: "string list"

datatype statement = InsertVoucher string | InsertToken string

fun apply_statement :: "statement \<Rightarrow> database \<Rightarrow> database" where
  "apply_statement (InsertVoucher v) db = db \<lparr> vouchers := vouchers db @ [v] \<rparr>"
| "apply_statement (InsertToken t) db = db \<lparr> tokens := tokens db @ [t] \<rparr>"

datatype download =
    DownloaderBroken string
  | DownloadFailed "stage list" string
  | Downloaded "stage list" "statement list" "statement list list"

definition progress :: "stage \<Rightarrow> stage_message" where
  "progress s = \<lparr> stage = s, failure_reason = None \<rparr>"

definition failed :: "string \<Rightarrow> stage_message" where
  "failed reason = \<lparr> stage = import_failed, failure_reason = Some reason \<rparr>"

definition has_local_state :: "database \<Rightarrow> bool" where
  "has_local_state db = (vouchers db \<noteq> [] \<or> tokens db \<noteq> [])"

definition recover :: "database \<Rightarrow> download \<Rightarrow> stage_message list \<times> database" where
  "recover db dl =
     (if has_local_state db then ([failed ''there is existing local state''], db)
      else
        (case dl of
           DownloaderBroken details \<Rightarrow> ([failed details], db)
         | DownloadFailed reported details \<Rightarrow>
             (progress started # map progress reported @ [failed details], db)
         | Downloaded reported snapshot event_streams \<Rightarrow>
             (progress started # map progress reported @ [progress succeeded],
              fold apply_statement (snapshot @ concat event_streams) db)))"

text \<open>
  Modelled from the spec: the broadcast of a session's stage messages. "All connected
  observers of the same recovery capability receive the identical ordered sequence of
  stage messages: recovery is broadcast, not per-connection private state; a second
  observer joining after a stage has already fired still receives that stage's message",
  and "a joining observer replays the log from its start". The session keeps the log of
  the messages sent and, for each observer in the order of connection, what it has
  received. An observer connects, or the session fires a stage.
\<close>

record session =
  sent_updates :: "stage_message list"
  observers :: "stage_message list list"

datatype event = Connect | Fire stage_message

fun step :: "session \<Rightarrow> event \<Rightarrow> session" where
  "step s Connect = s \<lparr> observers := observers s @ [sent_updates s] \<rparr>"
| "step s (Fire m) =
     \<lparr> sent_updates = sent_updates s @ [m],
       observers = map (\<lambda>received. received @ [m]) (observers s) \<rparr>"

definition new_session :: session where
  "new_session = \<lparr> sent_updates = [], observers = [] \<rparr>"

definition run :: "event list \<Rightarrow> session" where
  "run events = foldl step new_session events"

text \<open>The stage messages of a session, in the order fired, whoever was connected.\<close>

fun fired :: "event list \<Rightarrow> stage_message list" where
  "fired [] = []"
| "fired (Connect # events) = fired events"
| "fired (Fire m # events) = m # fired events"

section \<open>Properties of the voucher resource\<close>

text \<open>
  C7. \<open>is_syntactic_prn\<close> never raises, and it answers \<open>True\<close> exactly for a text string of
  44 code points that encodes to ASCII and that \<open>urlsafe_b64decode\<close> then decodes without an
  exception; every other object (not text, another length, not decodable) gets \<open>False\<close>.
\<close>

theorem is_syntactic_prn_characterisation:
  "is_syntactic_prn urlsafe_b64decode prn =
     Inr (\<exists>s. prn = PyText s \<and> length s = 44
              \<and> (\<exists>b decoded. encode_ascii s = Inr b \<and> urlsafe_b64decode b = Inr decoded))"
  by (cases prn) (auto simp: is_syntactic_prn_def split: sum.splits)

lemma is_syntactic_prn_returns:
  "is_syntactic_prn urlsafe_b64decode prn = Inr True
   \<or> is_syntactic_prn urlsafe_b64decode prn = Inr False"
  by (cases prn) (auto simp: is_syntactic_prn_def split: sum.splits)

lemma is_syntactic_prn_no_exception: "is_syntactic_prn urlsafe_b64decode prn \<noteq> Inl e"
  using is_syntactic_prn_returns [of urlsafe_b64decode prn] by auto

lemma utf8_decode_ascii: "list_all (\<lambda>b. b < 128) bs \<Longrightarrow> utf8_decode bs = Inr bs"
  by (induction bs) auto

text \<open>
  What \<open>render_PUT\<close> does with a body that parses to a JSON object: the one-property
  object with a syntactically valid voucher reaches \<open>redeem\<close> and gets the empty body;
  every other object gets the Bad Request page and \<open>redeem\<close> is not called.
\<close>

lemma render_PUT_object:
  "loads content = Inr (PyDict items) \<Longrightarrow>
   render_PUT loads urlsafe_b64decode controller content =
     (case items of
        [(k, prn)] \<Rightarrow>
          if k = PyText (text_of ''voucher'') \<and> is_syntactic_prn urlsafe_b64decode prn = Inr True
          then Inr (Body [], controller @ [prn])
          else Inr (ErrorPageRendered 400 ''Bad Request'' ''Bad Request'', controller)
      | _ \<Rightarrow> Inr (ErrorPageRendered 400 ''Bad Request'' ''Bad Request'', controller))"
  using is_syntactic_prn_returns [of urlsafe_b64decode]
  by (auto simp: render_PUT_def bad_request_def BAD_REQUEST_def keys_def getitem_def
      redeem_def is_syntactic_prn_no_exception split: sum.splits option.splits list.splits)

text \<open>A body that \<open>loads\<close> refuses gets the Bad Request page as well.\<close>

lemma render_PUT_not_json:
  "loads content = Inl e \<Longrightarrow>
   render_PUT loads urlsafe_b64decode controller content
     = Inr (ErrorPageRendered 400 ''Bad Request'' ''Bad Request'', controller)"
  by (simp add: render_PUT_def bad_request_def BAD_REQUEST_def)

text \<open>A body that parses to anything but an object makes \<open>payload.keys()\<close> raise.\<close>

lemma render_PUT_not_object:
  "loads content = Inr payload \<Longrightarrow> \<forall>items. payload \<noteq> PyDict items \<Longrightarrow>
   render_PUT loads urlsafe_b64decode controller content = Inl AttributeError"
  by (cases payload) (simp_all add: render_PUT_def keys_def)

text \<open>
  C1. The claim promises the Bad Request page for every body that is not the one-property
  voucher object. A body that is valid JSON but not an object is such a body, and there
  \<open>render_PUT\<close> does not return at all: \<open>payload.keys()\<close> sits after the \<open>try\<close>, and on a
  list it raises \<open>AttributeError\<close>. Shown for the body \<open>[]\<close>, for any parser that reads it
  as the empty array.
\<close>

theorem render_PUT_json_array_raises:
  assumes "loads ''[]'' = Inr (PyList [])"
  shows "render_PUT loads urlsafe_b64decode controller ''[]'' = Inl AttributeError"
  using assms by (simp add: render_PUT_def keys_def)

theorem render_PUT_json_array_raises_witness:
  "(\<lambda>b. if b = ''[]'' then Inr (PyList []) else Inl ValueError) ''[]'' = Inr (PyList [])
   \<and> render_PUT (\<lambda>b. if b = ''[]'' then Inr (PyList []) else Inl ValueError)
        (\<lambda>b. Inr b) [] ''[]'' = Inl AttributeError"
  using render_PUT_json_array_raises
    [of "\<lambda>b. if b = ''[]'' then Inr (PyList []) else Inl ValueError" "\<lambda>b. Inr b" "[]"]
  by simp

text \<open>
  What \<open>getChild\<close> does with a segment that is UTF-8: Bad Request for a text that is not a
  syntactically valid voucher, Not Found for a valid one the store does not hold, the
  view of the payment reference otherwise.
\<close>

lemma getChild_decoded:
  "decode_utf8 segment = Inr prn \<Longrightarrow>
   getChild urlsafe_b64decode store segment =
     (if is_syntactic_prn urlsafe_b64decode (PyText prn) \<noteq> Inr True then Inr bad_request
      else case store prn of None \<Rightarrow> Inr NoResource
           | Some r \<Rightarrow> Inr (PaymentReferenceView r))"
  using is_syntactic_prn_returns [of urlsafe_b64decode "PyText prn"]
  by (auto simp: getChild_def store_get_def is_syntactic_prn_no_exception
      split: sum.splits option.splits exn.splits)

lemma getChild_status:
  "decode_utf8 segment = Inr prn \<Longrightarrow> store prn = None \<Longrightarrow>
   getChild urlsafe_b64decode store segment = Inr r \<Longrightarrow>
   status (render r to_json) =
     (if is_syntactic_prn urlsafe_b64decode (PyText prn) = Inr True then 404 else 400)"
  by (auto simp: getChild_decoded bad_request_def BAD_REQUEST_def NOT_FOUND_def
      split: if_splits)

text \<open>
  C8. The claim promises Bad Request for every segment that is not a syntactically valid
  voucher, and no server fault. The segment made of the single byte \<open>0xFF\<close> is not a
  voucher; \<open>segment.decode("utf-8")\<close> is outside any \<open>try\<close> and raises
  \<open>UnicodeDecodeError\<close>, so \<open>getChild\<close> returns no resource at all.
\<close>

theorem getChild_undecodable_segment_raises:
  "getChild urlsafe_b64decode store [CHR 0xFF] = Inl UnicodeDecodeError"
  by (simp add: getChild_def decode_utf8_def)

section \<open>Properties of the Foolscap protocol definitions\<close>

lemma and_then_returns:
  "and_then r f = Inr y \<longleftrightarrow> (\<exists>x. r = Inr x \<and> f x = Inr y)"
  by (cases r) (simp_all add: and_then_def)

lemma in_dict_set: "(k, v) \<in> set (dict_set d k v)"
  by (induction d) auto

lemma map_of_dict_set: "map_of (dict_set d k v) = (map_of d)(k \<mapsto> v)"
  by (induction d) (auto simp: fun_eq_iff)

lemma keys_dict_set:
  "map fst (dict_set d k v) = (if k \<in> set (map fst d) then map fst d else map fst d @ [k])"
  by (induction d) (force+)

lemma keys_dict_update: "fst ` set (dict_update d kvs) = fst ` set d \<union> fst ` set kvs"
proof (induction d kvs rule: dict_update.induct)
  case (1 d)
  then show ?case by simp
next
  case (2 d k v kvs)
  have "set (map fst (dict_set d k v)) = insert k (set (map fst d))"
    by (auto simp: keys_dict_set)
  with 2 show ?case by auto
qed

lemma map_of_dict_update_other:
  "n \<notin> fst ` set kvs \<Longrightarrow> map_of (dict_update d kvs) n = map_of d n"
  by (induction d kvs rule: dict_update.induct) (auto simp: map_of_dict_set)

lemma map_of_filter_keys:
  "map_of (filter (\<lambda>(n, c). n \<notin> S) l) k = (if k \<in> S then None else map_of l k)"
  by (induction l) auto

text \<open>
  \<open>add_arguments\<close> returns exactly when neither \<open>self\<close> nor \<open>method\<close> is among the
  keywords it hands to the constructor, and this is the schema it returns.
\<close>

lemma add_arguments_result:
  assumes "''self'' \<notin> fst ` set kwargs \<union> fst ` set (argConstraints schema)"
    and "''method'' \<notin> fst ` set kwargs \<union> fst ` set (argConstraints schema)"
  shows "add_arguments schema kwargs =
     Inr ((schema_of_arguments
             (filter (\<lambda>(argname, c). argname \<notin> set constructor_options)
                (dict_update (argConstraints schema) kwargs))
             (map_of (dict_update (argConstraints schema) kwargs) ''_response'')
             (map_of (dict_update (argConstraints schema) kwargs) ''__ignoreUnknown__'')
             (map_of (dict_update (argConstraints schema) kwargs) ''__acceptUnknown__''))
           \<lparr> argumentNames := map fst kwargs @ argumentNames schema \<rparr>)"
  using assms
  by (auto simp: add_arguments_def Let_def RemoteMethodSchema_init_def and_then_def
      keys_dict_update)

lemma add_arguments_raises:
  "''self'' \<in> fst ` set kwargs \<union> fst ` set (argConstraints schema)
   \<or> ''method'' \<in> fst ` set kwargs \<union> fst ` set (argConstraints schema) \<Longrightarrow>
   add_arguments schema kwargs = Inl TypeError"
  by (auto simp: add_arguments_def Let_def RemoteMethodSchema_init_def and_then_def
      keys_dict_update)

text \<open>
  C10, as the code has it. The claim is for every schema and every list of pairs, and
  fails where a name is one of the constructor's own parameters: with \<open>method\<close> (or
  \<open>self\<close>) among the keywords the call raises \<open>TypeError\<close> and there is no schema, and an
  original argument called \<open>_response\<close> is taken as the response constraint and is no
  argument of the new schema.
\<close>

theorem add_arguments_reserved_name_counterexample:
  "add_arguments
     (schema_of_arguments [(''storage_index'', External ''StorageIndex'')] None None None)
     [(''method'', Any)] = Inl TypeError
   \<and> map_of
        (argConstraints
           (projr (add_arguments
              (schema_of_arguments [(''_response'', External ''StorageIndex'')] None None None)
              [(''passes'', PassList)])))
        ''_response'' = None"
  by (simp add: add_arguments_def Let_def RemoteMethodSchema_init_def and_then_def
      schema_of_arguments_def constructor_options_def)

text \<open>
  C10, amended. When neither \<open>self\<close> nor \<open>method\<close> is a name of \<open>kwargs\<close> or of an
  argument of the schema, \<open>add_arguments\<close> returns a schema that lists the names of
  \<open>kwargs\<close> in their order and then the original names in theirs, and every original
  argument that \<open>kwargs\<close> does not name, and whose name is not one the constructor takes
  as an option, keeps the constraint it had.
\<close>

theorem add_arguments_prepends_unreserved:
  assumes "''self'' \<notin> fst ` set kwargs \<union> fst ` set (argConstraints schema)"
    and "''method'' \<notin> fst ` set kwargs \<union> fst ` set (argConstraints schema)"
  shows "\<exists>modified. add_arguments schema kwargs = Inr modified
     \<and> argumentNames modified = map fst kwargs @ argumentNames schema
     \<and> (\<forall>argName \<in> set (argumentNames schema).
           argName \<notin> set (map fst kwargs) \<longrightarrow> argName \<notin> set constructor_options \<longrightarrow>
           map_of (argConstraints modified) argName = map_of (argConstraints schema) argName)"
  unfolding add_arguments_result [OF assms]
  by (simp add: schema_of_arguments_def map_of_filter_keys map_of_dict_update_other)

theorem add_arguments_prepends_unreserved_witness:
  "''self'' \<notin> fst ` set [(''passes'', PassList)]
       \<union> fst ` set (argConstraints
            (schema_of_arguments [(''storage_index'', External ''StorageIndex'')] None None None))
   \<and> ''method'' \<notin> fst ` set [(''passes'', PassList)]
       \<union> fst ` set (argConstraints
            (schema_of_arguments [(''storage_index'', External ''StorageIndex'')] None None None))
   \<and> argumentNames
        (projr (add_arguments
           (schema_of_arguments [(''storage_index'', External ''StorageIndex'')] None None None)
           [(''passes'', PassList)]))
       = [''passes'', ''storage_index'']
   \<and> map_of
        (argConstraints
           (projr (add_arguments
              (schema_of_arguments [(''storage_index'', External ''StorageIndex'')] None None None)
              [(''passes'', PassList)])))
        ''storage_index''
       = Some (External ''StorageIndex'')"
  using add_arguments_prepends_unreserved
    [of "[(''passes'', PassList)]"
        "schema_of_arguments [(''storage_index'', External ''StorageIndex'')] None None None"]
  by (auto simp: schema_of_arguments_def constructor_options_def)

text \<open>
  \<open>_PassList\<close> lets an object through exactly when it is a list of at most \<open>2 ^ 20\<close>
  elements, each a byte string of 177 bytes; anything else is a \<open>Violation\<close>.
\<close>

lemma checkObject_PassList:
  "checkObject external PassList obj =
     (if well_formed_passes obj then Inr () else Inl Violation)"
proof -
  have pass: "checkObject external Pass p = Inr () \<longleftrightarrow> (\<exists>b. p = PyBytes b \<and> length b = 177)"
    for p
    by (cases p) (auto simp: Pass_def PASS_LENGTH_def too_long_def)
  show ?thesis
    by (cases obj)
      (auto simp: PassList_def MAXIMUM_PASSES_PER_CALL_def too_long_def pass list_all_iff)
qed

lemma checkObject_raises_Violation:
  "checkObject external c obj = Inl e \<Longrightarrow> e = Violation"
  by (induction c arbitrary: obj) (auto split: pyval.splits if_splits)

lemma add_passes_result:
  assumes "add_passes original = Inr gated"
  shows "argumentNames gated = ''passes'' # argumentNames original
     \<and> map_of (argConstraints gated) ''passes'' = Some PassList
     \<and> ''passes'' \<in> set (required gated)"
proof -
  let ?new = "dict_update (argConstraints original) [(''passes'', PassList)]"
  have ok: "''self'' \<notin> fst ` set [(''passes'', PassList)] \<union> fst ` set (argConstraints original)"
           "''method'' \<notin> fst ` set [(''passes'', PassList)] \<union> fst ` set (argConstraints original)"
    using assms add_arguments_raises [of "[(''passes'', PassList)]" original]
    by (auto simp: add_passes_def)
  have gated: "gated =
      (schema_of_arguments
         (filter (\<lambda>(argname, c). argname \<notin> set constructor_options) ?new)
         (map_of ?new ''_response'') (map_of ?new ''__ignoreUnknown__'')
         (map_of ?new ''__acceptUnknown__''))
       \<lparr> argumentNames := map fst [(''passes'', PassList)] @ argumentNames original \<rparr>"
    using assms add_arguments_result [OF ok] by (simp add: add_passes_def)
  have member: "(''passes'', PassList) \<in> set ?new"
    using in_dict_set [of "''passes''" PassList "argConstraints original"] by simp
  have "\<not> is_Optional PassList"
    by (simp add: PassList_def)
  with member have "''passes'' \<in> set (required gated)"
    by (force simp: gated schema_of_arguments_def constructor_options_def)
  moreover have "map_of (argConstraints gated) ''passes'' = Some PassList"
  proof -
    have "map_of (argConstraints gated) ''passes'' =
        (if ''passes'' \<in> set constructor_options then None else map_of ?new ''passes'')"
      by (simp add: gated schema_of_arguments_def map_of_filter_keys)
    then show ?thesis
      by (simp add: constructor_options_def map_of_dict_set)
  qed
  moreover have "argumentNames gated = ''passes'' # argumentNames original"
    by (simp add: gated)
  ultimately show ?thesis by simp
qed

lemma interface_methods:
  assumes "RIPrivacyPassAuthorizedStorageServer RIStorageServer = Inr iface"
  shows "\<exists>gv ab al gb sr st ac ab' al' st' ss sts.
      RIStorageServer ''get_version'' = Some gv \<and>
      RIStorageServer ''allocate_buckets'' = Some ab \<and> add_passes ab = Inr ab' \<and>
      RIStorageServer ''add_lease'' = Some al \<and> add_passes al = Inr al' \<and>
      RIStorageServer ''get_buckets'' = Some gb \<and>
      RIStorageServer ''slot_readv'' = Some sr \<and>
      RIStorageServer ''slot_testv_and_readv_and_writev'' = Some st \<and> add_passes st = Inr st' \<and>
      RIStorageServer ''advise_corrupt_share'' = Some ac \<and>
      initFromMethod share_sizes_arguments share_sizes_response = Inr ss \<and>
      initFromMethod stat_shares_arguments stat_shares_response = Inr sts \<and>
      iface = [ (''get_version'', gv),
             (''allocate_buckets'', ab'),
             (''add_lease'', al'),
             (''get_buckets'', gb),
             (''share_sizes'', ss),
             (''stat_shares'', sts),
             (''slot_readv'', sr),
             (''slot_testv_and_readv_and_writev'', st'),
             (''advise_corrupt_share'', ac) ]"
  using assms
  by (auto simp: RIPrivacyPassAuthorizedStorageServer_def and_then_returns remote_method_def
      split: option.splits)

lemma interface_of_example:
  "\<exists>iface. RIPrivacyPassAuthorizedStorageServer (map_of RIStorageServer_example) = Inr iface"
  by (simp add: RIPrivacyPassAuthorizedStorageServer_def and_then_def remote_method_def
      RIStorageServer_example_def add_passes_def add_arguments_def Let_def
      RemoteMethodSchema_init_def schema_of_arguments_def initFromMethod_def
      share_sizes_arguments_def stat_shares_arguments_def)

text \<open>
  C5. Whenever the class body goes through, the interface has nine methods. Three of
  them, \<open>allocate_buckets\<close>, \<open>add_lease\<close> and \<open>slot_testv_and_readv_and_writev\<close>, are the
  underlying schema put through \<open>add_passes\<close>: \<open>passes\<close> comes first among the argument
  names, its constraint is \<open>_PassList\<close>, and it is required. Four, \<open>get_version\<close>,
  \<open>get_buckets\<close>, \<open>slot_readv\<close> and \<open>advise_corrupt_share\<close>, are the underlying schema as it
  is. The two declared here, \<open>share_sizes\<close> and \<open>stat_shares\<close>, take no \<open>passes\<close>.
\<close>

theorem passes_on_mutating_operations_only:
  assumes "RIPrivacyPassAuthorizedStorageServer RIStorageServer = Inr iface"
  shows "map fst iface =
           [''get_version'', ''allocate_buckets'', ''add_lease'', ''get_buckets'',
            ''share_sizes'', ''stat_shares'', ''slot_readv'',
            ''slot_testv_and_readv_and_writev'', ''advise_corrupt_share'']
    \<and> (\<forall>name \<in> {''allocate_buckets'', ''add_lease'', ''slot_testv_and_readv_and_writev''}.
          \<exists>original gated. RIStorageServer name = Some original
            \<and> add_passes original = Inr gated
            \<and> map_of iface name = Some gated
            \<and> argumentNames gated = ''passes'' # argumentNames original
            \<and> map_of (argConstraints gated) ''passes'' = Some PassList
            \<and> ''passes'' \<in> set (required gated))
    \<and> (\<forall>name \<in> {''get_version'', ''get_buckets'', ''slot_readv'', ''advise_corrupt_share''}.
          \<exists>original. RIStorageServer name = Some original \<and> map_of iface name = Some original)
    \<and> (\<forall>name \<in> {''share_sizes'', ''stat_shares''}.
          \<exists>declared. map_of iface name = Some declared
            \<and> ''passes'' \<notin> set (argumentNames declared))"
proof -
  from interface_methods [OF assms] obtain gv ab al gb sr st ac ab' al' st' ss sts where m:
      "RIStorageServer ''get_version'' = Some gv"
      "RIStorageServer ''allocate_buckets'' = Some ab"
      "RIStorageServer ''add_lease'' = Some al"
      "RIStorageServer ''get_buckets'' = Some gb"
      "RIStorageServer ''slot_readv'' = Some sr"
      "RIStorageServer ''slot_testv_and_readv_and_writev'' = Some st"
      "RIStorageServer ''advise_corrupt_share'' = Some ac"
    and g: "add_passes ab = Inr ab'" "add_passes al = Inr al'" "add_passes st = Inr st'"
    and d: "initFromMethod share_sizes_arguments share_sizes_response = Inr ss"
      "initFromMethod stat_shares_arguments stat_shares_response = Inr sts"
    and iface: "iface = [ (''get_version'', gv),
             (''allocate_buckets'', ab'),
             (''add_lease'', al'),
             (''get_buckets'', gb),
             (''share_sizes'', ss),
             (''stat_shares'', sts),
             (''slot_readv'', sr),
             (''slot_testv_and_readv_and_writev'', st'),
             (''advise_corrupt_share'', ac) ]"
    by blast
  have names: "map fst iface =
           [''get_version'', ''allocate_buckets'', ''add_lease'', ''get_buckets'',
            ''share_sizes'', ''stat_shares'', ''slot_readv'',
            ''slot_testv_and_readv_and_writev'', ''advise_corrupt_share'']"
    by (simp add: iface)
  have with_passes:
    "\<forall>name \<in> {''allocate_buckets'', ''add_lease'', ''slot_testv_and_readv_and_writev''}.
          \<exists>original gated. RIStorageServer name = Some original
            \<and> add_passes original = Inr gated
            \<and> map_of iface name = Some gated
            \<and> argumentNames gated = ''passes'' # argumentNames original
            \<and> map_of (argConstraints gated) ''passes'' = Some PassList
            \<and> ''passes'' \<in> set (required gated)"
    using add_passes_result [OF g(1)] add_passes_result [OF g(2)] add_passes_result [OF g(3)]
    by (simp add: iface m g)
  have unchanged:
    "\<forall>name \<in> {''get_version'', ''get_buckets'', ''slot_readv'', ''advise_corrupt_share''}.
          \<exists>original. RIStorageServer name = Some original \<and> map_of iface name = Some original"
    by (simp add: iface m)
  have ss: "argumentNames ss = [''storage_index_or_slot'', ''sharenums'']"
    using d(1) by (auto simp: initFromMethod_def share_sizes_arguments_def schema_of_arguments_def)
  have sts: "argumentNames sts = [''storage_indexes_or_slots'']"
    using d(2) by (auto simp: initFromMethod_def stat_shares_arguments_def schema_of_arguments_def)
  have declared:
    "\<forall>name \<in> {''share_sizes'', ''stat_shares''}.
          \<exists>declared. map_of iface name = Some declared
            \<and> ''passes'' \<notin> set (argumentNames declared)"
    by (simp add: iface ss sts)
  from names with_passes unchanged declared show ?thesis by blast
qed

theorem passes_on_mutating_operations_only_witness:
  "RIPrivacyPassAuthorizedStorageServer (map_of RIStorageServer_example)
     = Inr (projr (RIPrivacyPassAuthorizedStorageServer (map_of RIStorageServer_example)))
   \<and> map fst (projr (RIPrivacyPassAuthorizedStorageServer (map_of RIStorageServer_example))) =
           [''get_version'', ''allocate_buckets'', ''add_lease'', ''get_buckets'',
            ''share_sizes'', ''stat_shares'', ''slot_readv'',
            ''slot_testv_and_readv_and_writev'', ''advise_corrupt_share'']"
proof -
  from interface_of_example obtain iface
    where i: "RIPrivacyPassAuthorizedStorageServer (map_of RIStorageServer_example) = Inr iface"
    by blast
  from passes_on_mutating_operations_only [OF i] have "map fst iface =
           [''get_version'', ''allocate_buckets'', ''add_lease'', ''get_buckets'',
            ''share_sizes'', ''stat_shares'', ''slot_readv'',
            ''slot_testv_and_readv_and_writev'', ''advise_corrupt_share'']"
    by blast
  with i show ?thesis by simp
qed

text \<open>
  An argument that its constraint refuses stops the call: \<open>checkAllArgs\<close> raises, the
  method does not run and the state of the server is what it was. The same for a required
  argument that the call does not give.
\<close>

lemma check_arguments_reaches_argument:
  assumes "map_of allargs argname = Some obj"
    and "map_of (argConstraints schema) argname = Some c"
    and "\<not> is_Optional c"
    and "checkObject external c obj = Inl v"
  shows "\<exists>e. check_arguments external schema allargs = Inl e"
  using assms(1)
proof (induction allargs)
  case Nil
  then show ?case by simp
next
  case (Cons a allargs)
  obtain k x where a: "a = (k, x)" by (cases a)
  show ?case
  proof (cases "k = argname")
    case True
    then have "x = obj" using Cons.prems a by simp
    moreover have "getKeywordArgConstraint schema argname = Inr (True, Some c)"
      using assms(2,3) by (cases c) (simp_all add: getKeywordArgConstraint_def)
    ultimately show ?thesis
      using assms(4) True a by (simp add: and_then_def)
  next
    case False
    then have "map_of allargs argname = Some obj" using Cons.prems a by simp
    then obtain e where "check_arguments external schema allargs = Inl e"
      using Cons.IH by blast
    then show ?thesis
      by (auto simp: a and_then_def split: sum.splits option.splits)
  qed
qed

lemma check_arguments_raises_Violation:
  assumes "ignoreUnknown schema = None" and "acceptUnknown schema = None"
  shows "check_arguments external schema allargs = Inl e \<Longrightarrow> e = Violation"
proof (induction allargs)
  case Nil
  then show ?case by simp
next
  case (Cons a allargs)
  obtain k x where a: "a = (k, x)" by (cases a)
  from Cons show ?case
    using assms
    by (auto simp: a and_then_def getKeywordArgConstraint_def
        dest: checkObject_raises_Violation split: sum.splits option.splits if_splits)
qed

lemma bind_arguments_raises_Violation:
  "bind_arguments schema args kwargs = Inl e \<Longrightarrow> e = Violation"
proof -
  have "add_keywords allargs kw = Inl e \<Longrightarrow> e = Violation" for allargs kw
    by (induction allargs kw rule: add_keywords.induct) (auto split: if_splits)
  then show "bind_arguments schema args kwargs = Inl e \<Longrightarrow> e = Violation"
    by (auto simp: bind_arguments_def split: if_splits)
qed

lemma malformed_argument_rejected:
  assumes "bind_arguments schema args kwargs = Inr allargs"
    and "map_of allargs argname = Some obj"
    and "map_of (argConstraints schema) argname = Some c"
    and "\<not> is_Optional c"
    and "checkObject external c obj = Inl v"
  shows "(\<exists>e. doCall external schema operation args kwargs state = (Inl e, state))
     \<and> (ignoreUnknown schema = None \<longrightarrow> acceptUnknown schema = None \<longrightarrow>
          doCall external schema operation args kwargs state = (Inl Violation, state))"
proof -
  obtain e where e: "check_arguments external schema allargs = Inl e"
    using check_arguments_reaches_argument [OF assms(2-5)] by blast
  then have call: "doCall external schema operation args kwargs state = (Inl e, state)"
    by (simp add: doCall_def checkAllArgs_def and_then_def assms(1))
  moreover have "ignoreUnknown schema = None \<Longrightarrow> acceptUnknown schema = None \<Longrightarrow> e = Violation"
    using check_arguments_raises_Violation [OF _ _ e] by blast
  ultimately show ?thesis by auto
qed

lemma missing_required_argument_rejected:
  assumes "bind_arguments schema args kwargs = Inr allargs"
    and "map_of allargs argname = None"
    and "argname \<in> set (required schema)"
  shows "\<exists>e. doCall external schema operation args kwargs state = (Inl e, state)"
proof -
  have "argname \<notin> set (map fst allargs)"
    using assms(2) by (simp add: map_of_eq_None_iff)
  with assms(3) have "\<not> list_all (\<lambda>n. n \<in> set (map fst allargs)) (required schema)"
    by (auto simp: list_all_iff)
  then show ?thesis
    by (auto simp: doCall_def checkAllArgs_def and_then_def assms(1) split: sum.splits)
qed

text \<open>
  C6. On each of the three gated operations, \<open>passes\<close> is the first argument and its
  constraint is \<open>_PassList\<close>, which lets an object through exactly when it is a list of at
  most \<open>2 ^ 20\<close> elements, each a byte string of 177 bytes. A call that gives anything
  else for \<open>passes\<close> (a longer list, a pass of another length or kind), or no \<open>passes\<close>
  at all, is rejected before the operation runs: the call ends with an exception and the
  state of the server unchanged, whatever the operation is. The exception is \<open>Violation\<close>
  unless the schema has one of the options on unknown arguments set.
\<close>

theorem gated_operations_reject_malformed_passes:
  assumes "RIPrivacyPassAuthorizedStorageServer RIStorageServer = Inr iface"
    and "name \<in> {''allocate_buckets'', ''add_lease'', ''slot_testv_and_readv_and_writev''}"
  shows "\<exists>schema. map_of iface name = Some schema
     \<and> (\<exists>others. argumentNames schema = ''passes'' # others)
     \<and> map_of (argConstraints schema) ''passes'' = Some PassList
     \<and> (\<forall>obj. checkObject external PassList obj =
                 (if well_formed_passes obj then Inr () else Inl Violation))
     \<and> (\<forall>args kwargs allargs obj
           (operation :: pyval list \<Rightarrow> (string \<times> pyval) list \<Rightarrow> 's \<Rightarrow> (exn + pyval) \<times> 's) state.
           bind_arguments schema args kwargs = Inr allargs \<longrightarrow>
           map_of allargs ''passes'' = Some obj \<longrightarrow> \<not> well_formed_passes obj \<longrightarrow>
             (\<exists>e. doCall external schema operation args kwargs state = (Inl e, state))
             \<and> (ignoreUnknown schema = None \<longrightarrow> acceptUnknown schema = None \<longrightarrow>
                  doCall external schema operation args kwargs state = (Inl Violation, state)))
     \<and> (\<forall>args kwargs allargs
           (operation :: pyval list \<Rightarrow> (string \<times> pyval) list \<Rightarrow> 's \<Rightarrow> (exn + pyval) \<times> 's) state.
           bind_arguments schema args kwargs = Inr allargs \<longrightarrow>
           map_of allargs ''passes'' = None \<longrightarrow>
             (\<exists>e. doCall external schema operation args kwargs state = (Inl e, state)))"
proof -
  from interface_methods [OF assms(1)] obtain ab al st ab' al' st' where
      g: "add_passes ab = Inr ab'" "add_passes al = Inr al'" "add_passes st = Inr st'"
    and i: "map_of iface ''allocate_buckets'' = Some ab'"
      "map_of iface ''add_lease'' = Some al'"
      "map_of iface ''slot_testv_and_readv_and_writev'' = Some st'"
    by auto
  from assms(2) g i obtain original schema where
      s: "add_passes original = Inr schema" "map_of iface name = Some schema"
    by auto
  from add_passes_result [OF s(1)] have
      first: "\<exists>others. argumentNames schema = ''passes'' # others"
    and pc: "map_of (argConstraints schema) ''passes'' = Some PassList"
    and req: "''passes'' \<in> set (required schema)"
    by simp_all
  have opt: "\<not> is_Optional PassList" by (simp add: PassList_def)
  have bad: "\<not> well_formed_passes obj \<Longrightarrow> checkObject external PassList obj = Inl Violation"
    for obj
    by (simp only: checkObject_PassList if_False)
  have check: "\<forall>obj. checkObject external PassList obj =
                 (if well_formed_passes obj then Inr () else Inl Violation)"
    by (simp only: checkObject_PassList) simp
  have rejected: "\<forall>args kwargs allargs obj
           (operation :: pyval list \<Rightarrow> (string \<times> pyval) list \<Rightarrow> 's \<Rightarrow> (exn + pyval) \<times> 's) state.
           bind_arguments schema args kwargs = Inr allargs \<longrightarrow>
           map_of allargs ''passes'' = Some obj \<longrightarrow> \<not> well_formed_passes obj \<longrightarrow>
             (\<exists>e. doCall external schema operation args kwargs state = (Inl e, state))
             \<and> (ignoreUnknown schema = None \<longrightarrow> acceptUnknown schema = None \<longrightarrow>
                  doCall external schema operation args kwargs state = (Inl Violation, state))"
  proof (intro allI impI)
    fix args kwargs allargs obj operation state
    assume b: "bind_arguments schema args kwargs = Inr allargs"
      and v: "map_of allargs ''passes'' = Some obj" and w: "\<not> well_formed_passes obj"
    show "(\<exists>e. doCall external schema operation args kwargs state = (Inl e, state))
             \<and> (ignoreUnknown schema = None \<longrightarrow> acceptUnknown schema = None \<longrightarrow>
                  doCall external schema operation args kwargs state = (Inl Violation, state))"
      by (rule malformed_argument_rejected [OF b v pc opt bad [OF w]])
  qed
  have missing: "\<forall>args kwargs allargs
           (operation :: pyval list \<Rightarrow> (string \<times> pyval) list \<Rightarrow> 's \<Rightarrow> (exn + pyval) \<times> 's) state.
           bind_arguments schema args kwargs = Inr allargs \<longrightarrow>
           map_of allargs ''passes'' = None \<longrightarrow>
             (\<exists>e. doCall external schema operation args kwargs state = (Inl e, state))"
  proof (intro allI impI)
    fix args kwargs allargs operation state
    assume b: "bind_arguments schema args kwargs = Inr allargs"
      and v: "map_of allargs ''passes'' = None"
    show "\<exists>e. doCall external schema operation args kwargs state = (Inl e, state)"
      by (rule missing_required_argument_rejected [OF b v req])
  qed
  from s(2) first pc check rejected missing show ?thesis
    by (intro exI [of _ schema] conjI)
qed

theorem gated_operations_reject_malformed_passes_witness:
  "RIPrivacyPassAuthorizedStorageServer (map_of RIStorageServer_example)
     = Inr (projr (RIPrivacyPassAuthorizedStorageServer (map_of RIStorageServer_example)))
   \<and> isl (fst (doCall (\<lambda>name obj. True)
          (the (map_of (projr (RIPrivacyPassAuthorizedStorageServer
                                 (map_of RIStorageServer_example))) ''allocate_buckets''))
          (\<lambda>args kwargs state. (Inr PyNone, Suc state))
          [PyList [PyBytes (replicate 176 CHR ''p'')]] [] (0::nat)))
   \<and> snd (doCall (\<lambda>name obj. True)
          (the (map_of (projr (RIPrivacyPassAuthorizedStorageServer
                                 (map_of RIStorageServer_example))) ''allocate_buckets''))
          (\<lambda>args kwargs state. (Inr PyNone, Suc state))
          [PyList [PyBytes (replicate 176 CHR ''p'')]] [] (0::nat)) = 0"
proof -
  let ?bad = "PyList [PyBytes (replicate 176 CHR ''p'')]"
  let ?operation = "\<lambda>(args :: pyval list) (kwargs :: (string \<times> pyval) list) (state :: nat).
                      (Inr PyNone :: exn + pyval, Suc state)"
  from interface_of_example obtain iface
    where i: "RIPrivacyPassAuthorizedStorageServer (map_of RIStorageServer_example) = Inr iface"
    by blast
  have n: "''allocate_buckets''
             \<in> {''allocate_buckets'', ''add_lease'', ''slot_testv_and_readv_and_writev''}"
    by simp
  note t = gated_operations_reject_malformed_passes
             [OF i n, of "\<lambda>name obj. True", where ?'s = nat]
  from t obtain schema where
      s: "map_of iface ''allocate_buckets'' = Some schema"
    and f: "\<exists>others. argumentNames schema = ''passes'' # others"
    and r: "\<forall>args kwargs allargs obj
              (operation :: pyval list \<Rightarrow> (string \<times> pyval) list \<Rightarrow> nat \<Rightarrow> (exn + pyval) \<times> nat)
              state.
           bind_arguments schema args kwargs = Inr allargs \<longrightarrow>
           map_of allargs ''passes'' = Some obj \<longrightarrow> \<not> well_formed_passes obj \<longrightarrow>
             (\<exists>e. doCall (\<lambda>name obj. True) schema operation args kwargs state = (Inl e, state))
             \<and> (ignoreUnknown schema = None \<longrightarrow> acceptUnknown schema = None \<longrightarrow>
                  doCall (\<lambda>name obj. True) schema operation args kwargs state
                    = (Inl Violation, state))"
    by (elim exE conjE) (rule that, assumption, blast, assumption)
  from f obtain others where first: "argumentNames schema = ''passes'' # others"
    by blast
  have rejected: "\<exists>e. doCall (\<lambda>name obj. True) schema operation args kwargs state = (Inl e, state)"
    if "bind_arguments schema args kwargs = Inr allargs"
      "map_of allargs ''passes'' = Some obj" "\<not> well_formed_passes obj"
    for args kwargs allargs obj state
      and operation :: "pyval list \<Rightarrow> (string \<times> pyval) list \<Rightarrow> nat \<Rightarrow> (exn + pyval) \<times> nat"
    using r that by blast
  have b: "bind_arguments schema [?bad] [] = Inr [(''passes'', ?bad)]"
    by (simp add: bind_arguments_def first)
  have "\<not> well_formed_passes ?bad"
    by simp
  with rejected [OF b, of ?bad ?operation 0] obtain e where
      "doCall (\<lambda>name obj. True) schema ?operation [?bad] [] 0 = (Inl e, 0)"
    by auto
  with i s show ?thesis by simp
qed

section \<open>Properties of the share queries\<close>

lemma map_of_tabulate:
  "map_of (map (\<lambda>k. (k, f k)) ks) k = (if k \<in> set ks then Some (f k) else None)"
  by (induction ks) auto

lemma share_stats_nth:
  "i < length storage_indexes \<Longrightarrow>
   share_stats held storage_indexes (Some requested) ! i =
     map (\<lambda>sharenum.
            (sharenum,
             case map_of (held (storage_indexes ! i)) sharenum of
               None \<Rightarrow> ShareStat_init None None
             | Some stat \<Rightarrow> stat))
         requested"
  by (simp add: share_stats_def)

lemma share_sizes_requested:
  "share_sizes held storage_index (Some requested) =
     map (\<lambda>sharenum.
            (sharenum,
             size_bytes (case map_of (held storage_index) sharenum of
                           None \<Rightarrow> ShareStat_init None None
                         | Some stat \<Rightarrow> stat)))
         requested"
  by (simp add: share_sizes_def share_stats_def comp_def)

text \<open>
  C9. \<open>ShareStat()\<close> has size 0 and lease expiration 0. The batch query answers with one
  mapping for each storage index asked, each mapping has every requested share number,
  in the order asked, and a requested share with no stored state is there with the stat
  of \<open>ShareStat()\<close>, so with size 0; \<open>share_sizes\<close> reports that size 0.
\<close>

theorem share_stats_report_absent_shares:
  "size_bytes (ShareStat_init None None) = 0 \<and> lease_expiration (ShareStat_init None None) = 0
   \<and> length (share_stats held storage_indexes (Some requested)) = length storage_indexes
   \<and> (\<forall>i < length storage_indexes.
         map fst (share_stats held storage_indexes (Some requested) ! i) = requested
         \<and> (\<forall>sharenum \<in> set requested.
               map_of (held (storage_indexes ! i)) sharenum = None \<longrightarrow>
               map_of (share_stats held storage_indexes (Some requested) ! i) sharenum
                 = Some (ShareStat_init None None)))
   \<and> map fst (share_sizes held storage_index (Some requested)) = requested
   \<and> (\<forall>sharenum \<in> set requested.
         map_of (held storage_index) sharenum = None \<longrightarrow>
         map_of (share_sizes held storage_index (Some requested)) sharenum = Some 0)"
proof -
  have default: "size_bytes (ShareStat_init None None) = 0"
      "lease_expiration (ShareStat_init None None) = 0"
    by (simp_all add: ShareStat_init_def)
  have batch: "\<forall>i < length storage_indexes.
         map fst (share_stats held storage_indexes (Some requested) ! i) = requested
         \<and> (\<forall>sharenum \<in> set requested.
               map_of (held (storage_indexes ! i)) sharenum = None \<longrightarrow>
               map_of (share_stats held storage_indexes (Some requested) ! i) sharenum
                 = Some (ShareStat_init None None))"
    by (simp add: share_stats_nth map_of_tabulate comp_def)
  have sizes: "map fst (share_sizes held storage_index (Some requested)) = requested"
      "\<forall>sharenum \<in> set requested.
         map_of (held storage_index) sharenum = None \<longrightarrow>
         map_of (share_sizes held storage_index (Some requested)) sharenum = Some 0"
    by (simp_all add: share_sizes_requested map_of_tabulate comp_def default)
  have "length (share_stats held storage_indexes (Some requested)) = length storage_indexes"
    by (simp add: share_stats_def)
  with default batch sizes show ?thesis by blast
qed

theorem share_stats_report_absent_shares_witness:
  "(1::nat) \<in> set [0, 1]
   \<and> map_of ((\<lambda>si. if si = ''slot'' then [(0, \<lparr> size_bytes = 10, lease_expiration = 5 \<rparr>)]
                     else []) ([''slot'', ''other''] ! 0)) (1::nat) = None
   \<and> share_stats
        (\<lambda>si. if si = ''slot'' then [(0, \<lparr> size_bytes = 10, lease_expiration = 5 \<rparr>)] else [])
        [''slot'', ''other''] (Some [0, 1])
       = [[(0, \<lparr> size_bytes = 10, lease_expiration = 5 \<rparr>),
           (1, \<lparr> size_bytes = 0, lease_expiration = 0 \<rparr>)],
          [(0, \<lparr> size_bytes = 0, lease_expiration = 0 \<rparr>),
           (1, \<lparr> size_bytes = 0, lease_expiration = 0 \<rparr>)]]
   \<and> share_sizes
        (\<lambda>si. if si = ''slot'' then [(0, \<lparr> size_bytes = 10, lease_expiration = 5 \<rparr>)] else [])
        ''slot'' (Some [0, 1]) = [(0, 10), (1, 0)]"
  using share_stats_report_absent_shares
    [of "\<lambda>si. if si = ''slot'' then [(0, \<lparr> size_bytes = 10, lease_expiration = 5 \<rparr>)] else []"
        "[''slot'', ''other'']" "[0, 1]" "''slot''"]
  by (simp add: share_stats_def share_sizes_def ShareStat_init_def)

section \<open>Properties of the price calculator\<close>

lemma calculate_nonneg:
  "\<forall>s \<in> set S. 0 \<le> s \<Longrightarrow> calculate pc S = Inr (sum_list (map (passes_charged pc) S))"
  by (auto simp: calculate_def list_ex_iff)

lemma sum_of_single_prices_nonneg:
  "\<forall>s \<in> set S. 0 \<le> s \<Longrightarrow>
   sum_of_single_prices pc S = Inr (sum_list (map (passes_charged pc) S))"
  by (induction S) (auto simp: calculate_def and_then_def)

text \<open>
  The two prices the spec gives as a scenario: with one share needed of one, a size of 0
  costs nothing and a size of one pass value costs one pass.
\<close>

lemma calculate_scenario:
  "0 < V \<Longrightarrow>
   calculate \<lparr> shares_needed = 1, shares_total = 1, pass_value = V \<rparr> [0] = Inr 0
   \<and> calculate \<lparr> shares_needed = 1, shares_total = 1, pass_value = V \<rparr> [int V] = Inr 1"
  by (simp add: calculate_def passes_charged_def div_ceil_def zdiv_zminus1_eq_if)

text \<open>
  C2. For a list of non-negative sizes, \<open>calculate\<close> returns a price, and it is the price
  that adding up \<open>calculate([s])\<close> over the sizes gives; the empty list costs 0.
\<close>

theorem calculate_additive:
  assumes "\<forall>s \<in> set S. 0 \<le> s"
  shows "(\<exists>price. calculate pc S = Inr price \<and> sum_of_single_prices pc S = Inr price)
         \<and> calculate pc [] = Inr 0"
proof -
  have "calculate pc S = Inr (sum_list (map (passes_charged pc) S))"
    using assms by (rule calculate_nonneg)
  moreover have "sum_of_single_prices pc S = Inr (sum_list (map (passes_charged pc) S))"
    using assms by (rule sum_of_single_prices_nonneg)
  moreover have "calculate pc [] = Inr 0"
    by (simp add: calculate_def)
  ultimately show ?thesis by simp
qed

theorem calculate_additive_witness:
  "list_all (\<lambda>s. (0::int) \<le> s) [0, 5, 131072, 131073]
   \<and> calculate \<lparr> shares_needed = 1, shares_total = 1, pass_value = 131072 \<rparr>
        [0, 5, 131072, 131073] = Inr 4
   \<and> sum_of_single_prices \<lparr> shares_needed = 1, shares_total = 1, pass_value = 131072 \<rparr>
        [0, 5, 131072, 131073] = Inr 4"
  using calculate_additive
    [of "[0, 5, 131072, 131073]"
        "\<lparr> shares_needed = 1, shares_total = 1, pass_value = 131072 \<rparr>"]
  by (simp add: calculate_def passes_charged_def div_ceil_def)

section \<open>Properties of recovery\<close>

text \<open>
  Against an empty database, the messages the tests of the repository expect: \<open>started\<close>
  and \<open>succeeded\<close> for a download that reports nothing on the way, a lone
  \<open>import_failed\<close> for a broken downloader.
\<close>

lemma recover_into_empty_database:
  "recover \<lparr> vouchers = [], tokens = [] \<rparr> (Downloaded [] [] [])
     = ([progress started, progress succeeded], \<lparr> vouchers = [], tokens = [] \<rparr>)
   \<and> recover \<lparr> vouchers = [], tokens = [] \<rparr> (DownloaderBroken details)
     = ([failed details], \<lparr> vouchers = [], tokens = [] \<rparr>)
   \<and> recover \<lparr> vouchers = [], tokens = [] \<rparr> (DownloadFailed [downloading] details)
     = ([progress started, progress downloading, failed details],
        \<lparr> vouchers = [], tokens = [] \<rparr>)"
  by (simp add: recover_def has_local_state_def)

text \<open>
  C3. A session started against a database that holds a voucher sends one message,
  \<open>import_failed\<close> with the reason "there is existing local state", nothing after it, and
  leaves the database as it was, whatever the download would have given.
\<close>

theorem recover_refuses_existing_state:
  assumes "vouchers db \<noteq> []"
  shows "recover db dl =
           ([\<lparr> stage = import_failed,
               failure_reason = Some ''there is existing local state'' \<rparr>], db)"
  using assms by (simp add: recover_def has_local_state_def failed_def)

theorem recover_refuses_existing_state_witness:
  "vouchers \<lparr> vouchers = [''voucher-1''], tokens = [] \<rparr> \<noteq> []
   \<and> recover \<lparr> vouchers = [''voucher-1''], tokens = [] \<rparr>
        (Downloaded [downloading, importing] [InsertVoucher ''voucher-2''] [[InsertToken ''t'']])
       = ([\<lparr> stage = import_failed,
              failure_reason = Some ''there is existing local state'' \<rparr>],
          \<lparr> vouchers = [''voucher-1''], tokens = [] \<rparr>)"
  using recover_refuses_existing_state
    [of "\<lparr> vouchers = [''voucher-1''], tokens = [] \<rparr>"
        "Downloaded [downloading, importing] [InsertVoucher ''voucher-2''] [[InsertToken ''t'']]"]
  by simp

lemma step_keeps_observers_current:
  "\<forall>received \<in> set (observers s). received = sent_updates s \<Longrightarrow>
   \<forall>received \<in> set (observers (step s e)). received = sent_updates (step s e)"
  by (cases e) auto

lemma foldl_step_keeps_observers_current:
  "\<forall>received \<in> set (observers s). received = sent_updates s \<Longrightarrow>
   \<forall>received \<in> set (observers (foldl step s events)).
      received = sent_updates (foldl step s events)"
proof (induction events arbitrary: s)
  case Nil
  then show ?case by simp
next
  case (Cons e events)
  have "\<forall>received \<in> set (observers (step s e)). received = sent_updates (step s e)"
    using Cons.prems by (rule step_keeps_observers_current)
  then show ?case using Cons.IH [of "step s e"] by simp
qed

lemma observers_have_the_log:
  "\<forall>received \<in> set (observers (run events)). received = sent_updates (run events)"
  unfolding run_def by (rule foldl_step_keeps_observers_current) (simp add: new_session_def)

lemma sent_updates_foldl_step:
  "sent_updates (foldl step s events) = sent_updates s @ fired events"
proof (induction events arbitrary: s)
  case Nil
  then show ?case by simp
next
  case (Cons e events)
  then show ?case by (cases e) simp_all
qed

lemma sent_updates_run: "sent_updates (run events) = fired events"
  by (simp add: run_def sent_updates_foldl_step new_session_def)

text \<open>
  C4. After any sequence of connections and stage messages, in any order, two observers
  of the session have received the same messages in the same order: each has all the
  stage messages of the session, in the order fired, whenever it connected.
\<close>

theorem observers_receive_identical_sequences:
  "\<forall>i < length (observers (run events)). \<forall>j < length (observers (run events)).
     observers (run events) ! i = observers (run events) ! j
     \<and> observers (run events) ! i = fired events"
  using observers_have_the_log [of events] sent_updates_run [of events] by (metis nth_mem)

theorem observers_receive_identical_sequences_witness:
  "(0::nat) < length (observers (run [Connect, Fire (progress started), Connect,
                                       Fire (progress succeeded), Connect]))
   \<and> (2::nat) < length (observers (run [Connect, Fire (progress started), Connect,
                                         Fire (progress succeeded), Connect]))
   \<and> observers (run [Connect, Fire (progress started), Connect,
                      Fire (progress succeeded), Connect]) ! 0
       = observers (run [Connect, Fire (progress started), Connect,
                         Fire (progress succeeded), Connect]) ! 2
   \<and> observers (run [Connect, Fire (progress started), Connect,
                      Fire (progress succeeded), Connect]) ! 2
       = [progress started, progress succeeded]"
  using observers_receive_identical_sequences
    [of "[Connect, Fire (progress started), Connect, Fire (progress succeeded), Connect]"]
  by (simp add: run_def new_session_def)

end
